theory Spec2Isabelle
  imports Main "HOL-Library.Sublist" "HOL-Library.Multiset"
begin

section \<open>Python strings\<close>

text \<open>
  The program is Python. A \<open>str\<close> is modelled as a \<open>string\<close> (a list of characters);
  the model covers ASCII text, for which \<open>str.lower\<close> maps the letters \<open>A\<close>..\<open>Z\<close>
  to \<open>a\<close>..\<open>z\<close> and leaves every other character alone.
\<close>

definition lower_char :: "char \<Rightarrow> char" where
  "lower_char c =
     (case map_of (zip ''ABCDEFGHIJKLMNOPQRSTUVWXYZ'' ''abcdefghijklmnopqrstuvwxyz'') c of
        None \<Rightarrow> c
      | Some l \<Rightarrow> l)"

definition str_lower :: "string \<Rightarrow> string" where
  "str_lower s = map lower_char s"

text \<open>\<open>sub in s\<close>: \<open>sub\<close> occurs in \<open>s\<close> as a contiguous run of characters.\<close>

fun str_in :: "string \<Rightarrow> string \<Rightarrow> bool" where
  "str_in sub [] = (sub = [])"
| "str_in sub (c # cs) = (prefix sub (c # cs) \<or> str_in sub cs)"

definition endswith :: "string \<Rightarrow> string \<Rightarrow> bool" where
  "endswith s suf = suffix suf s"

definition removeprefix :: "string \<Rightarrow> string \<Rightarrow> string" where
  "removeprefix s pre = (if prefix pre s then drop (length pre) s else s)"

text \<open>
  \<open>s.replace(old, new)\<close> replaces the occurrences of \<open>old\<close> from left to right, without
  overlap. For an empty \<open>old\<close> Python puts \<open>new\<close> before every character and at the end.
\<close>

function str_replace :: "string \<Rightarrow> string \<Rightarrow> string \<Rightarrow> string" where
  "str_replace s old new =
     (if old = [] then new @ concat (map (\<lambda>c. c # new) s)
      else if s = [] then []
      else if prefix old s then new @ str_replace (drop (length old) s) old new
      else hd s # str_replace (tl s) old new)"
  by pat_completeness auto
termination
  by (relation "measure (\<lambda>(s, old, new). length s)") (auto simp: neq_Nil_conv)

declare str_replace.simps [simp del]

section \<open>Text matcher\<close>

definition IMAGE_EXTENSIONS :: "string list" where
  "IMAGE_EXTENSIONS = [''.jpg'', ''.jpeg'', ''.png'', ''.gif'', ''.tiff'']"

definition has_image_in_wikitext :: "string \<Rightarrow> bool" where
  "has_image_in_wikitext content =
     (let content_lower = str_lower content;
          has_extension = list_ex (\<lambda>ext. str_in ext content_lower) IMAGE_EXTENSIONS
      in has_extension)"

definition matches_file_in_wikitext :: "string \<Rightarrow> string \<Rightarrow> bool" where
  "matches_file_in_wikitext content file_name =
     (let content_lower = str_lower content;
          file_name_lower = removeprefix (str_lower file_name) ''file:'';
          fn_spaces = str_replace file_name_lower ''_'' '' '';
          fn_underscores = str_replace file_name_lower '' '' ''_''
      in list_ex (\<lambda>variant. str_in variant content_lower)
           [file_name_lower, fn_spaces, fn_underscores])"

text \<open>The comparison of \<open>wikidata_utils.py\<close> between a file title and an image value.\<close>

definition check_if_file_matches_wikidata_image :: "string \<Rightarrow> string \<Rightarrow> bool" where
  "check_if_file_matches_wikidata_image file_name wikidata_image =
     (let commons_name = str_lower (str_replace file_name ''File:'' '''');
          wikidata_name = str_lower wikidata_image;
          commons_spaces = str_replace commons_name ''_'' '' '';
          commons_underscores = str_replace commons_name '' '' ''_'';
          wikidata_spaces = str_replace wikidata_name ''_'' '' '';
          wikidata_underscores = str_replace wikidata_name '' '' ''_''
      in commons_spaces = wikidata_spaces
         \<or> commons_underscores = wikidata_underscores
         \<or> commons_name = wikidata_name)"

section \<open>Python values, exceptions and the remote services\<close>

text \<open>
  The introduction records, the result entries and the property history are Python
  dictionaries and lists built from JSON. A dictionary is an association list in
  insertion order; a key is looked up with \<open>map_of\<close>.
\<close>

datatype pyval =
    PNone
  | PBool bool
  | PInt int
  | PStr string
  | PList "pyval list"
  | PDict "(string \<times> pyval) list"

type_synonym pydict = "(string \<times> pyval) list"

text \<open>Truthiness, as tested by \<open>if x:\<close> and \<open>not x\<close>.\<close>

fun truthy :: "pyval \<Rightarrow> bool" where
  "truthy PNone = False"
| "truthy (PBool b) = b"
| "truthy (PInt i) = (i \<noteq> 0)"
| "truthy (PStr s) = (s \<noteq> [])"
| "truthy (PList xs) = (xs \<noteq> [])"
| "truthy (PDict d) = (d \<noteq> [])"

text \<open>\<open>d.get(key, default)\<close>.\<close>

definition dict_get :: "pydict \<Rightarrow> string \<Rightarrow> pyval \<Rightarrow> pyval" where
  "dict_get d key dflt = (case map_of d key of None \<Rightarrow> dflt | Some v \<Rightarrow> v)"

text \<open>The exceptions the modelled code raises, each with the name that identifies it.\<close>

datatype error =
    ValueError string
  | KeyError string
  | TypeError string
  | AttributeError string

text \<open>
  The lines the program prints when it handles an exception. The informational lines
  (progress, tables) are not modelled.
\<close>

datatype msg =
    ErrorProcessingImageHistory string error
  | ErrorProcessing string string string error
  | UnexpectedError error
  | NoFilesFound

text \<open>
  The answers of the remote services and of the date library, fixed for one run. Each
  field stands for the function of the same name, which sends the requests:
  \<open>get_page_revisions_wikitext_descending\<close> gives the triples (revision id, timestamp,
  wikitext) that the generator yields, newest first; \<open>get_global_usage_of_file\<close> gives
  the dictionary from wiki domains to page titles, in insertion order;
  \<open>fromisoformat_strftime\<close> is \<open>datetime.fromisoformat(s).strftime(...)\<close>, with \<open>None\<close>
  where \<open>fromisoformat\<close> raises \<open>ValueError\<close>. A transport failure (\<open>WikiAPIError\<close>) is
  caught inside these functions: the answer is then \<open>None\<close> for the item and for the
  image, the empty dictionary for the usage, the revisions yielded so far, and a history
  of one entry with the current image.
\<close>

record env =
  get_commons_category_files :: "string \<Rightarrow> int \<Rightarrow> string list"
  get_global_usage_of_file :: "string \<Rightarrow> (string \<times> string list) list"
  get_page_revisions_wikitext_descending :: "string \<Rightarrow> string \<Rightarrow> (int \<times> string \<times> string) list"
  get_wikidata_item_for_page :: "string \<Rightarrow> string \<Rightarrow> string option"
  get_current_image_for_item :: "string \<Rightarrow> string option"
  get_image_history_for_item :: "string \<Rightarrow> pyval"
  fromisoformat_strftime :: "string \<Rightarrow> string option"

section \<open>Wikitext introduction finder\<close>

definition wikitext_result :: "pyval \<Rightarrow> pyval \<Rightarrow> bool \<Rightarrow> pydict" where
  "wikitext_result earliest_rev_id earliest_ts first_image =
     [(''introduced_revision_id'', earliest_rev_id),
      (''introduced_timestamp'', earliest_ts),
      (''first_image'', PBool first_image),
      (''from_wikidata'', PBool False)]"

text \<open>
  The \<open>for\<close> loop of \<open>find_earliest_wikitext_introduction\<close> over the revisions, with
  its three variables, and the code after the loop in the first equation.
\<close>

fun scan_revisions ::
  "string \<Rightarrow> bool \<Rightarrow> pyval \<Rightarrow> pyval \<Rightarrow> (int \<times> string \<times> string) list \<Rightarrow> pydict option" where
  "scan_revisions file_name found_any earliest_rev_id earliest_ts [] =
     (if found_any then Some (wikitext_result earliest_rev_id earliest_ts True) else None)"
| "scan_revisions file_name found_any earliest_rev_id earliest_ts ((rev_id, ts, content) # revs) =
     (if \<not> found_any then
        (if matches_file_in_wikitext content file_name
         then scan_revisions file_name True (PInt rev_id) (PStr ts) revs
         else scan_revisions file_name found_any earliest_rev_id earliest_ts revs)
      else
        (if \<not> matches_file_in_wikitext content file_name
         then Some (wikitext_result earliest_rev_id earliest_ts (\<not> has_image_in_wikitext content))
         else scan_revisions file_name found_any (PInt rev_id) (PStr ts) revs))"

definition find_earliest_wikitext_introduction ::
  "env \<Rightarrow> string \<Rightarrow> string \<Rightarrow> string \<Rightarrow> pydict option" where
  "find_earliest_wikitext_introduction e wiki page_title file_name =
     scan_revisions file_name False PNone PNone
       (get_page_revisions_wikitext_descending e wiki page_title)"

section \<open>Structured-data fallback finder\<close>

text \<open>\<open>[h["image"] for h in hs if isinstance(h, dict) and "image" in h]\<close>.\<close>

definition image_fields :: "pyval list \<Rightarrow> pyval list" where
  "image_fields hs =
     List.map_filter (\<lambda>h. case h of PDict d \<Rightarrow> map_of d ''image'' | _ \<Rightarrow> None) hs"

definition is_dict :: "pyval \<Rightarrow> bool" where
  "is_dict v = (case v of PDict d \<Rightarrow> True | _ \<Rightarrow> False)"

definition is_str :: "pyval \<Rightarrow> bool" where
  "is_str v = (case v of PStr s \<Rightarrow> True | _ \<Rightarrow> False)"

text \<open>
  The body of the \<open>try\<close> block of \<open>find_wikidata_introduction\<close>. A history that is not a
  list, or whose first element is not a dictionary, raises \<open>ValueError\<close>; joining the
  previous images for the message raises \<open>TypeError\<close> when one of them is not a string;
  \<open>image_history[0]["timestamp"]\<close> raises \<open>KeyError\<close> when the key is missing.
\<close>

definition image_history_info :: "string \<Rightarrow> pyval \<Rightarrow> error + pydict" where
  "image_history_info wikidata_item image_history =
     (case image_history of
        PList hs \<Rightarrow>
          (if hs \<noteq> [] \<and> \<not> is_dict (hd hs)
           then Inl (ValueError ''Invalid image_history structure'')
           else
             let first_p18 = (length hs \<le> 1) in
             if \<not> first_p18 \<and> \<not> list_all is_str (image_fields (tl hs))
             then Inl (TypeError ''join'')
             else
               (case (if hs \<noteq> []
                      then (case hd hs of
                              PDict d \<Rightarrow> (case map_of d ''timestamp'' of
                                            None \<Rightarrow> Inl (KeyError ''timestamp'')
                                          | Some t \<Rightarrow> Inr t)
                            | _ \<Rightarrow> Inl (TypeError ''subscript''))
                      else Inr (PStr ''Unknown'')) of
                  Inl err \<Rightarrow> Inl err
                | Inr timestamp_str \<Rightarrow>
                    let previous_images = (if length hs > 1 then image_fields (tl hs) else [])
                    in Inr
                      [(''introduced_revision_id'',
                          (if hs \<noteq> []
                           then (case hd hs of
                                   PDict d \<Rightarrow> dict_get d ''revision_id'' (PInt 0)
                                 | _ \<Rightarrow> PInt 0)
                           else PInt 0)),
                       (''introduced_timestamp'', timestamp_str),
                       (''timestamp_is_formatted'', PBool True),
                       (''first_image'', PBool (length previous_images = 0)),
                       (''first_p18'', PBool first_p18),
                       (''from_wikidata'', PBool True),
                       (''wikidata_item'', PStr wikidata_item),
                       (''previous_p18_images'', PList previous_images)]))
      | _ \<Rightarrow> Inl (ValueError ''Invalid image_history type''))"

text \<open>
  \<open>find_wikidata_introduction\<close>: the printed error line of the \<open>except\<close> handler comes
  first in the result, the value or the re-raised exception second.
\<close>

definition find_wikidata_introduction ::
  "env \<Rightarrow> string \<Rightarrow> string \<Rightarrow> string \<Rightarrow> msg list \<times> (error + pydict option)" where
  "find_wikidata_introduction e wiki page_title file_name =
     (case get_wikidata_item_for_page e wiki page_title of
        None \<Rightarrow> ([], Inr None)
      | Some wikidata_item \<Rightarrow>
          if wikidata_item = [] then ([], Inr None)
          else
            (case get_current_image_for_item e wikidata_item of
               None \<Rightarrow> ([], Inr None)
             | Some wikidata_image \<Rightarrow>
                 if wikidata_image = [] then ([], Inr None)
                 else if check_if_file_matches_wikidata_image file_name wikidata_image
                 then
                   (case image_history_info wikidata_item
                           (get_image_history_for_item e wikidata_item) of
                      Inl err \<Rightarrow> ([ErrorProcessingImageHistory wikidata_item err], Inl err)
                    | Inr info \<Rightarrow> ([], Inr (Some info)))
                 else ([], Inr None)))"

section \<open>Introduction resolver\<close>

definition find_earliest_introduction ::
  "env \<Rightarrow> string \<Rightarrow> string \<Rightarrow> string \<Rightarrow> msg list \<times> (error + pydict option)" where
  "find_earliest_introduction e wiki page_title file_name =
     (case find_earliest_wikitext_introduction e wiki page_title file_name of
        None \<Rightarrow> find_wikidata_introduction e wiki page_title file_name
      | Some wikitext_info \<Rightarrow>
          if wikitext_info \<noteq> [] then ([], Inr (Some wikitext_info))
          else find_wikidata_introduction e wiki page_title file_name)"

section \<open>Statistics aggregator\<close>

text \<open>
  The class \<open>StatisticsTracker\<close>. A \<open>defaultdict(int)\<close> is a map whose missing keys
  count as 0; \<open>usage_by_wiki\<close> is kept as an association list in insertion order, since
  the selection of the top wikis sorts its items.
\<close>

record StatisticsTracker =
  files_used_on_wikipedias :: int
  wiki_pages_seen :: "string \<rightharpoonup> string set"
  usage_by_wiki :: "(string \<times> int) list"
  first_image_by_file :: "string \<rightharpoonup> int"
  total_usages_by_file :: "string \<rightharpoonup> int"
  first_image_by_wiki :: "string \<rightharpoonup> int"
  total_usages_by_wiki :: "string \<rightharpoonup> int"
  first_image_by_lang :: "string \<rightharpoonup> int"
  total_usages_by_lang :: "string \<rightharpoonup> int"
  wikidata_sourced_count :: int
  wikidata_sourced_by_wiki :: "string \<rightharpoonup> int"
  first_p18_count :: int
  replaced_p18_count :: int

definition initialize_statistics :: StatisticsTracker where
  "initialize_statistics =
     \<lparr>files_used_on_wikipedias = 0,
      wiki_pages_seen = Map.empty,
      usage_by_wiki = [],
      first_image_by_file = Map.empty,
      total_usages_by_file = Map.empty,
      first_image_by_wiki = Map.empty,
      total_usages_by_wiki = Map.empty,
      first_image_by_lang = Map.empty,
      total_usages_by_lang = Map.empty,
      wikidata_sourced_count = 0,
      wikidata_sourced_by_wiki = Map.empty,
      first_p18_count = 0,
      replaced_p18_count = 0\<rparr>"

text \<open>Reading a counter, and \<open>d[key] += 1\<close> on a \<open>defaultdict(int)\<close>.\<close>

definition counter :: "(string \<rightharpoonup> int) \<Rightarrow> string \<Rightarrow> int" where
  "counter d key = (case d key of None \<Rightarrow> 0 | Some n \<Rightarrow> n)"

definition incr :: "(string \<rightharpoonup> int) \<Rightarrow> string \<Rightarrow> (string \<rightharpoonup> int)" where
  "incr d key = d(key \<mapsto> counter d key + 1)"

definition update_file_usage ::
  "StatisticsTracker \<Rightarrow> string \<Rightarrow> string \<Rightarrow> string \<Rightarrow> bool \<Rightarrow> bool \<Rightarrow> bool \<Rightarrow> StatisticsTracker" where
  "update_file_usage self file_title wiki lang_code is_first_image from_wikidata is_first_p18 =
     (let s1 = self\<lparr>total_usages_by_file := incr (total_usages_by_file self) file_title,
                     total_usages_by_wiki := incr (total_usages_by_wiki self) wiki,
                     total_usages_by_lang := incr (total_usages_by_lang self) lang_code\<rparr>;
          s2 = (if is_first_image
                then s1\<lparr>first_image_by_file := incr (first_image_by_file s1) file_title,
                        first_image_by_wiki := incr (first_image_by_wiki s1) wiki,
                        first_image_by_lang := incr (first_image_by_lang s1) lang_code\<rparr>
                else s1)
      in if from_wikidata
         then
           (let s3 = s2\<lparr>wikidata_sourced_count := wikidata_sourced_count s2 + 1,
                         wikidata_sourced_by_wiki := incr (wikidata_sourced_by_wiki s2) wiki\<rparr>
            in if is_first_p18
               then s3\<lparr>first_p18_count := first_p18_count s3 + 1\<rparr>
               else s3\<lparr>replaced_p18_count := replaced_p18_count s3 + 1\<rparr>)
         else s2)"

text \<open>
  \<open>update_statistics\<close> reads the flags from the introduction record: \<open>info["first_image"]\<close>
  raises \<open>KeyError\<close> when the key is missing, the other two are read with \<open>get\<close> and the
  default \<open>False\<close>. An exception ends the run (see \<open>main\<close>), so the tracker is not read
  after one.
\<close>

definition update_statistics ::
  "pydict \<Rightarrow> StatisticsTracker \<Rightarrow> string \<Rightarrow> string \<Rightarrow> string \<Rightarrow> error + StatisticsTracker" where
  "update_statistics info stats file_title wiki lang_code =
     (let s1 = stats\<lparr>total_usages_by_file := incr (total_usages_by_file stats) file_title,
                      total_usages_by_wiki := incr (total_usages_by_wiki stats) wiki,
                      total_usages_by_lang := incr (total_usages_by_lang stats) lang_code\<rparr>
      in case map_of info ''first_image'' of
           None \<Rightarrow> Inl (KeyError ''first_image'')
         | Some first_image \<Rightarrow>
             (let s2 = (if truthy first_image
                        then s1\<lparr>first_image_by_file := incr (first_image_by_file s1) file_title,
                                first_image_by_wiki := incr (first_image_by_wiki s1) wiki,
                                first_image_by_lang := incr (first_image_by_lang s1) lang_code\<rparr>
                        else s1)
              in if truthy (dict_get info ''from_wikidata'' (PBool False))
                 then
                   (let s3 = s2\<lparr>wikidata_sourced_count := wikidata_sourced_count s2 + 1,
                                 wikidata_sourced_by_wiki := incr (wikidata_sourced_by_wiki s2) wiki\<rparr>
                    in if truthy (dict_get info ''first_p18'' (PBool False))
                       then Inr (s3\<lparr>first_p18_count := first_p18_count s3 + 1\<rparr>)
                       else Inr (s3\<lparr>replaced_p18_count := replaced_p18_count s3 + 1\<rparr>))
                 else Inr s2))"

section \<open>Result entries\<close>

definition get_language_code :: "string \<Rightarrow> string" where
  "get_language_code wiki_domain =
     (if \<not> endswith wiki_domain ''.wikipedia.org'' then ''unknown''
      else takeWhile (\<lambda>c. c \<noteq> CHR ''.'') wiki_domain)"

text \<open>\<open>format_timestamp\<close>: a value that is not a string has no \<open>replace\<close>.\<close>

definition format_timestamp :: "env \<Rightarrow> pyval \<Rightarrow> error + pyval" where
  "format_timestamp e timestamp =
     (case timestamp of
        PStr s \<Rightarrow>
          (case fromisoformat_strftime e (str_replace s ''Z'' ''+00:00'') of
             None \<Rightarrow> Inl (ValueError ''Invalid isoformat string'')
           | Some formatted \<Rightarrow> Inr (PStr formatted))
      | _ \<Rightarrow> Inl (AttributeError ''replace''))"

definition subscript :: "pydict \<Rightarrow> string \<Rightarrow> error + pyval" where
  "subscript d key = (case map_of d key of None \<Rightarrow> Inl (KeyError key) | Some v \<Rightarrow> Inr v)"

definition create_result_entry ::
  "env \<Rightarrow> pydict \<Rightarrow> string \<Rightarrow> string \<Rightarrow> string \<Rightarrow> string \<Rightarrow> error + pydict" where
  "create_result_entry e info file_title wiki lang_code page_title =
     (case subscript info ''introduced_revision_id'' of
        Inl err \<Rightarrow> Inl err
      | Inr introduced_revision_id \<Rightarrow>
          (case (if truthy (dict_get info ''timestamp_is_formatted'' (PBool False))
                 then subscript info ''introduced_timestamp''
                 else (case subscript info ''introduced_timestamp'' of
                         Inl err \<Rightarrow> Inl err
                       | Inr ts \<Rightarrow> format_timestamp e ts)) of
             Inl err \<Rightarrow> Inl err
           | Inr introduced_timestamp \<Rightarrow>
               (case subscript info ''first_image'' of
                  Inl err \<Rightarrow> Inl err
                | Inr first_image \<Rightarrow>
                    Inr [(''file'', PStr file_title),
                         (''wiki'', PStr wiki),
                         (''language'', PStr lang_code),
                         (''page'', PStr page_title),
                         (''introduced_revision_id'', introduced_revision_id),
                         (''introduced_timestamp'', introduced_timestamp),
                         (''first_image'', first_image),
                         (''from_wikidata'', dict_get info ''from_wikidata'' (PBool False)),
                         (''wikidata_item'', dict_get info ''wikidata_item'' PNone),
                         (''first_p18'', dict_get info ''first_p18'' PNone),
                         (''previous_p18_images'',
                            dict_get info ''previous_p18_images'' (PList []))])))"

section \<open>The batch\<close>

record args =
  category :: string
  depth :: int
  limit_wikis :: "int option"
  skip_wikidata :: bool

type_synonym run_state = "StatisticsTracker \<times> pydict list"

text \<open>
  The lookup of \<open>process_wiki_pages\<close> for one page: the wikitext finder alone when
  \<open>--skip-wikidata\<close> is set, \<open>find_earliest_introduction\<close> otherwise.
\<close>

definition introduction_lookup ::
  "env \<Rightarrow> args \<Rightarrow> string \<Rightarrow> string \<Rightarrow> string \<Rightarrow> msg list \<times> (error + pydict option)" where
  "introduction_lookup e a wiki page_title file_title =
     (if skip_wikidata a
      then ([], Inr (find_earliest_wikitext_introduction e wiki page_title file_title))
      else find_earliest_introduction e wiki page_title file_title)"

text \<open>
  The body of the loop of \<open>process_wiki_pages\<close> for one page. Its \<open>except\<close> handler
  prints a line and raises the exception again.
\<close>

definition process_page ::
  "env \<Rightarrow> args \<Rightarrow> string \<Rightarrow> string \<Rightarrow> string \<Rightarrow> string \<Rightarrow> run_state
     \<Rightarrow> msg list \<times> (error + run_state)" where
  "process_page e a wiki lang_code file_title page_title st =
     (let stats = (fst st)\<lparr>wiki_pages_seen :=
                    (wiki_pages_seen (fst st))
                      (wiki \<mapsto> insert page_title
                         (case wiki_pages_seen (fst st) wiki of None \<Rightarrow> {} | Some ps \<Rightarrow> ps))\<rparr>;
          results = snd st;
          (out, looked_up) = introduction_lookup e a wiki page_title file_title;
          attempt =
            (case looked_up of
               Inl err \<Rightarrow> Inl err
             | Inr None \<Rightarrow> Inr (stats, results)
             | Inr (Some info) \<Rightarrow>
                 if info = [] then Inr (stats, results)
                 else
                   (case update_statistics info stats file_title wiki lang_code of
                      Inl err \<Rightarrow> Inl err
                    | Inr stats' \<Rightarrow>
                        (case create_result_entry e info file_title wiki lang_code page_title of
                           Inl err \<Rightarrow> Inl err
                         | Inr entry \<Rightarrow> Inr (stats', results @ [entry]))))
      in case attempt of
           Inl err \<Rightarrow> (out @ [ErrorProcessing file_title wiki page_title err], Inl err)
         | Inr st' \<Rightarrow> (out, Inr st'))"

fun process_pages ::
  "env \<Rightarrow> args \<Rightarrow> string \<Rightarrow> string \<Rightarrow> string \<Rightarrow> string list \<Rightarrow> run_state
     \<Rightarrow> msg list \<times> (error + run_state)" where
  "process_pages e a wiki lang_code file_title [] st = ([], Inr st)"
| "process_pages e a wiki lang_code file_title (page_title # pages) st =
     (case process_page e a wiki lang_code file_title page_title st of
        (out, Inl err) \<Rightarrow> (out, Inl err)
      | (out, Inr st') \<Rightarrow>
          (case process_pages e a wiki lang_code file_title pages st' of
             (out', r) \<Rightarrow> (out @ out', r)))"

definition process_wiki_pages ::
  "env \<Rightarrow> string \<Rightarrow> string list \<Rightarrow> string \<Rightarrow> args \<Rightarrow> run_state
     \<Rightarrow> msg list \<times> (error + run_state)" where
  "process_wiki_pages e wiki pages file_title a st =
     (let lang_code = get_language_code wiki
      in process_pages e a wiki lang_code file_title pages st)"

text \<open>\<open>d[key] += n\<close> on the ordered \<open>usage_by_wiki\<close>, and the slice \<open>xs[:n]\<close>.\<close>

fun add_usage :: "(string \<times> int) list \<Rightarrow> string \<Rightarrow> int \<Rightarrow> (string \<times> int) list" where
  "add_usage [] key n = [(key, n)]"
| "add_usage ((k, v) # d) key n =
     (if k = key then (k, v + n) # d else (k, v) # add_usage d key n)"

definition slice_to :: "'a list \<Rightarrow> int \<Rightarrow> 'a list" where
  "slice_to xs n = (if 0 \<le> n then take (nat n) xs else take (length xs - nat (- n)) xs)"

text \<open>The loop of \<open>process_files\<close> over the wikis of one file.\<close>

fun process_wikis ::
  "env \<Rightarrow> args \<Rightarrow> string \<Rightarrow> (string \<times> string list) list \<Rightarrow> run_state
     \<Rightarrow> msg list \<times> (error + run_state)" where
  "process_wikis e a file_title [] st = ([], Inr st)"
| "process_wikis e a file_title ((wiki, pages) # wiki_pages) st =
     (case process_wiki_pages e wiki pages file_title a st of
        (out, Inl err) \<Rightarrow> (out, Inl err)
      | (out, Inr st') \<Rightarrow>
          (case process_wikis e a file_title wiki_pages st' of
             (out', r) \<Rightarrow> (out @ out', r)))"

text \<open>
  The body of the loop of \<open>process_files\<close> for one file. \<open>sorted(..., reverse=True)\<close> is
  stable: items with the same count keep their order.
\<close>

definition process_file ::
  "env \<Rightarrow> args \<Rightarrow> string \<Rightarrow> run_state \<Rightarrow> msg list \<times> (error + run_state)" where
  "process_file e a file_title st =
     (let wiki_pages = get_global_usage_of_file e file_title
      in if wiki_pages = [] then ([], Inr st)
         else
           (let stats1 = (fst st)\<lparr>files_used_on_wikipedias :=
                            files_used_on_wikipedias (fst st) + 1\<rparr>;
                stats2 = stats1\<lparr>usage_by_wiki :=
                            fold (\<lambda>(wiki, pages) d. add_usage d wiki (int (length pages)))
                              wiki_pages (usage_by_wiki stats1)\<rparr>;
                limited =
                  (case limit_wikis a of
                     None \<Rightarrow> wiki_pages
                   | Some n \<Rightarrow>
                       if n \<noteq> 0 \<and> int (length wiki_pages) > n
                       then
                         (let top_wikis =
                                slice_to (sort_key (\<lambda>x. - snd x) (usage_by_wiki stats2)) n;
                              top_wiki_domains = map fst top_wikis
                          in filter (\<lambda>(wiki, pages). wiki \<in> set top_wiki_domains) wiki_pages)
                       else wiki_pages)
            in process_wikis e a file_title limited (stats2, snd st)))"

fun process_files ::
  "env \<Rightarrow> string list \<Rightarrow> args \<Rightarrow> run_state \<Rightarrow> msg list \<times> (error + run_state)" where
  "process_files e [] a st = ([], Inr st)"
| "process_files e (file_title # all_files) a st =
     (case process_file e a file_title st of
        (out, Inl err) \<Rightarrow> (out, Inl err)
      | (out, Inr st') \<Rightarrow>
          (case process_files e all_files a st' of
             (out', r) \<Rightarrow> (out @ out', r)))"

text \<open>
  \<open>main\<close> either returns the results or leaves through \<open>sys.exit\<close>. Printing the report
  changes nothing, so it is left out.
\<close>

datatype outcome = Returned "pydict list" | SysExit int

definition main :: "env \<Rightarrow> args \<Rightarrow> msg list \<times> outcome" where
  "main e a =
     (let all_files = get_commons_category_files e (category a) (depth a)
      in if all_files = [] then ([NoFilesFound], SysExit 1)
         else
           (case process_files e all_files a (initialize_statistics, []) of
              (out, Inl err) \<Rightarrow> (out @ [UnexpectedError err], SysExit 1)
            | (out, Inr st) \<Rightarrow> (out, Returned (snd st))))"

section \<open>Runs of the aggregator\<close>

text \<open>
  A usage event is what \<open>process_wiki_pages\<close> passes to \<open>update_statistics\<close>: the
  introduction record, the file title, the wiki and the language code. \<open>record_all\<close>
  applies \<open>update_statistics\<close> once per event, in the order of the list.
\<close>

type_synonym usage_event = "pydict \<times> string \<times> string \<times> string"

fun record_all :: "usage_event list \<Rightarrow> StatisticsTracker \<Rightarrow> error + StatisticsTracker" where
  "record_all [] stats = Inr stats"
| "record_all ((info, file_title, wiki, lang_code) # events) stats =
     (case update_statistics info stats file_title wiki lang_code of
        Inl err \<Rightarrow> Inl err
      | Inr stats' \<Rightarrow> record_all events stats')"

text \<open>The same step as a total function, for an event whose record has \<open>first_image\<close>.\<close>

definition apply_event :: "usage_event \<Rightarrow> StatisticsTracker \<Rightarrow> StatisticsTracker" where
  "apply_event ev stats =
     (case ev of (info, file_title, wiki, lang_code) \<Rightarrow>
        update_file_usage stats file_title wiki lang_code
          (truthy (dict_get info ''first_image'' PNone))
          (truthy (dict_get info ''from_wikidata'' (PBool False)))
          (truthy (dict_get info ''first_p18'' (PBool False))))"

text \<open>Every counter that \<open>update_statistics\<close> writes is at least as large in \<open>s'\<close> as in \<open>s\<close>.\<close>

definition counters_le :: "StatisticsTracker \<Rightarrow> StatisticsTracker \<Rightarrow> bool" where
  "counters_le s s' \<longleftrightarrow>
     (\<forall>k. counter (total_usages_by_file s) k \<le> counter (total_usages_by_file s') k) \<and>
     (\<forall>k. counter (total_usages_by_wiki s) k \<le> counter (total_usages_by_wiki s') k) \<and>
     (\<forall>k. counter (total_usages_by_lang s) k \<le> counter (total_usages_by_lang s') k) \<and>
     (\<forall>k. counter (first_image_by_file s) k \<le> counter (first_image_by_file s') k) \<and>
     (\<forall>k. counter (first_image_by_wiki s) k \<le> counter (first_image_by_wiki s') k) \<and>
     (\<forall>k. counter (first_image_by_lang s) k \<le> counter (first_image_by_lang s') k) \<and>
     (\<forall>k. counter (wikidata_sourced_by_wiki s) k \<le> counter (wikidata_sourced_by_wiki s') k) \<and>
     wikidata_sourced_count s \<le> wikidata_sourced_count s' \<and>
     first_p18_count s \<le> first_p18_count s' \<and>
     replaced_p18_count s \<le> replaced_p18_count s'"

definition counters_nonneg :: "StatisticsTracker \<Rightarrow> bool" where
  "counters_nonneg s \<longleftrightarrow>
     (\<forall>k. 0 \<le> counter (total_usages_by_file s) k) \<and>
     (\<forall>k. 0 \<le> counter (total_usages_by_wiki s) k) \<and>
     (\<forall>k. 0 \<le> counter (total_usages_by_lang s) k) \<and>
     (\<forall>k. 0 \<le> counter (first_image_by_file s) k) \<and>
     (\<forall>k. 0 \<le> counter (first_image_by_wiki s) k) \<and>
     (\<forall>k. 0 \<le> counter (first_image_by_lang s) k) \<and>
     (\<forall>k. 0 \<le> counter (wikidata_sourced_by_wiki s) k) \<and>
     0 \<le> wikidata_sourced_count s \<and>
     0 \<le> first_p18_count s \<and>
     0 \<le> replaced_p18_count s"

section \<open>An example run\<close>

text \<open>
  One file used on three pages of one wiki. The page \<open>Absent\<close> has no revision that
  references the file and no structured-data item. The page \<open>Broken\<close> shows the file
  through its item \<open>Q1\<close>, whose history has two entries; the image value of the older
  entry is not a string. The page \<open>Direct\<close> has the file in its wikitext since
  revision 2. The item \<open>Q2\<close> of a further page \<open>Infobox\<close> has a history of three
  entries. \<open>fromisoformat_strftime\<close> is given on the timestamps of this run.
\<close>

definition example_env :: env where
  "example_env =
     \<lparr>get_commons_category_files = (\<lambda>category_name depth. [''File:X.jpg'']),
      get_global_usage_of_file =
        (\<lambda>filename. if filename = ''File:X.jpg''
                     then [(''en.wikipedia.org'', [''Absent'', ''Broken'', ''Direct''])] else []),
      get_page_revisions_wikitext_descending =
        (\<lambda>wiki page_title.
           if page_title = ''Direct''
           then [(4, ''2024-01-04T00:00:00Z'', ''plain text''),
                 (3, ''2024-01-03T00:00:00Z'', ''[[File:X.jpg|thumb]] text''),
                 (2, ''2024-01-02T00:00:00Z'', ''[[file:x.JPG]]''),
                 (1, ''2024-01-01T00:00:00Z'', ''[[File:Old.png]]'')]
           else []),
      get_wikidata_item_for_page =
        (\<lambda>wiki page_title.
           if page_title = ''Broken'' then Some ''Q1''
           else if page_title = ''Infobox'' then Some ''Q2'' else None),
      get_current_image_for_item = (\<lambda>item_id. Some ''X.jpg''),
      get_image_history_for_item =
        (\<lambda>item_id.
           if item_id = ''Q1''
           then PList
             [PDict [(''timestamp'', PStr ''2024-03-03 00:00:00 UTC''),
                     (''image'', PStr ''X.jpg''), (''revision_id'', PInt 31)],
              PDict [(''timestamp'', PStr ''2024-02-02 00:00:00 UTC''),
                     (''image'', PDict [(''entity-type'', PStr ''item''),
                                        (''numeric-id'', PInt 42)]),
                     (''revision_id'', PInt 21)]]
           else PList
             [PDict [(''timestamp'', PStr ''2024-03-03 00:00:00 UTC''),
                     (''image'', PStr ''X.jpg''), (''revision_id'', PInt 30)],
              PDict [(''timestamp'', PStr ''2024-02-02 00:00:00 UTC''),
                     (''image'', PStr ''V1.jpg''), (''revision_id'', PInt 20)],
              PDict [(''timestamp'', PStr ''2024-01-01 00:00:00 UTC''),
                     (''image'', PStr ''V2.jpg''), (''revision_id'', PInt 10)]]),
      fromisoformat_strftime =
        map_of [(''2024-01-04T00:00:00+00:00'', ''2024-01-04 00:00:00 UTC''),
                (''2024-01-03T00:00:00+00:00'', ''2024-01-03 00:00:00 UTC''),
                (''2024-01-02T00:00:00+00:00'', ''2024-01-02 00:00:00 UTC''),
                (''2024-01-01T00:00:00+00:00'', ''2024-01-01 00:00:00 UTC'')]\<rparr>"

definition example_args :: args where
  "example_args =
     \<lparr>category = ''Portraits'', depth = 0, limit_wikis = None, skip_wikidata = False\<rparr>"

section \<open>Facts about strings\<close>

lemma str_in_sublist: "str_in sub s = sublist sub s"
  by (induction s) (auto simp: sublist_Cons_right)

lemma str_replace_char:
  "str_replace s [a] [b] = map (\<lambda>c. if c = a then b else c) s"
proof (induction s)
  case Nil
  show ?case by (simp add: str_replace.simps)
next
  case (Cons c cs)
  show ?case
    using Cons.IH by (subst str_replace.simps) auto
qed

lemma extension_unchanged:
  assumes "ext \<in> set IMAGE_EXTENSIONS" "a = CHR ''_'' \<or> a = CHR '' ''"
  shows "map (\<lambda>c. if c = a then b else c) ext = ext"
  using assms by (auto simp: IMAGE_EXTENSIONS_def)

lemma extension_starts_with_dot:
  "ext \<in> set IMAGE_EXTENSIONS \<Longrightarrow> \<exists>r. ext = CHR ''.'' # r"
  by (auto simp: IMAGE_EXTENSIONS_def)

text \<open>Removing the prefix \<open>file:\<close> keeps the extension: the prefix has no dot.\<close>

lemma suffix_removeprefix:
  assumes "ext \<in> set IMAGE_EXTENSIONS" "suffix ext s"
  shows "suffix ext (removeprefix s ''file:'')"
proof (cases "prefix ''file:'' s")
  case False
  then show ?thesis using assms by (simp add: removeprefix_def)
next
  case True
  then obtain r where r: "s = ''file:'' @ r" by (auto simp: prefix_def)
  from assms(2) obtain x where x: "s = x @ ext" by (auto simp: suffix_def)
  from extension_starts_with_dot [OF assms(1)] obtain e where e: "ext = CHR ''.'' # e"
    by blast
  from r x have "''file:'' @ r = x @ ext" by simp
  then consider us where "''file:'' = x @ us" "us @ r = ext"
    | us where "''file:'' @ us = x" "r = us @ ext"
    unfolding append_eq_append_conv2 by blast
  then have "suffix ext r"
  proof cases
    case 1
    show ?thesis
    proof (cases us)
      case Nil
      with 1 show ?thesis by simp
    next
      case (Cons u us')
      with 1 e have "u = CHR ''.''" by simp
      moreover have "u \<in> set ''file:''"
        using 1(1) Cons by (metis in_set_conv_decomp)
      ultimately show ?thesis by simp
    qed
  next
    case 2
    then show ?thesis by (simp add: suffix_def)
  qed
  then show ?thesis using r by (simp add: removeprefix_def)
qed

lemma suffix_in_content:
  assumes "suffix ext v" "str_in v c"
  shows "str_in ext c"
  using assms unfolding str_in_sublist
  by (meson sublist_order.order_trans suffix_imp_sublist)


text \<open>The two separators are identified by either replacement.\<close>

lemma underscores_of_spaces:
  "str_replace (str_replace z ''_'' '' '') '' '' ''_'' = str_replace z '' '' ''_''"
  by (simp add: str_replace_char)




lemmas matcher_defs =
  matches_file_in_wikitext_def has_image_in_wikitext_def IMAGE_EXTENSIONS_def
  check_if_file_matches_wikidata_image_def str_lower_def lower_char_def
  removeprefix_def endswith_def str_replace.simps

section \<open>Text matcher\<close>

text \<open>
  Claim C9: for a file name whose lower-cased form ends with one of the recognised image
  extensions, every content that the file-reference test accepts is also accepted by
  the image-markup test.
\<close>

theorem reference_implies_image_markup:
  assumes "list_ex (\<lambda>ext. endswith (str_lower file_name) ext) IMAGE_EXTENSIONS"
    and "matches_file_in_wikitext content file_name"
  shows "has_image_in_wikitext content"
proof -
  from assms(1) obtain ext where ext: "ext \<in> set IMAGE_EXTENSIONS"
    and suf: "suffix ext (str_lower file_name)"
    by (auto simp: list_ex_iff endswith_def)
  define n where "n = removeprefix (str_lower file_name) ''file:''"
  have n: "suffix ext n"
    unfolding n_def by (rule suffix_removeprefix [OF ext suf])
  have m: "suffix ext (map (\<lambda>c. if c = a then b else c) n)"
    if "a = CHR ''_'' \<or> a = CHR '' ''" for a b
  proof -
    from n obtain x where "n = x @ ext" by (auto simp: suffix_def)
    then show ?thesis
      using extension_unchanged [OF ext that, of b] by (simp add: suffix_def)
  qed
  from assms(2) obtain v where "str_in v (str_lower content)" "suffix ext v"
    using n m [of "CHR ''_''" "CHR '' ''"] m [of "CHR '' ''" "CHR ''_''"]
    by (auto simp: matches_file_in_wikitext_def Let_def n_def [symmetric] str_replace_char)
  then have "str_in ext (str_lower content)"
    using suffix_in_content by blast
  with ext show ?thesis
    by (auto simp: has_image_in_wikitext_def list_ex_iff)
qed

theorem reference_implies_image_markup_witness:
  "list_ex (\<lambda>ext. endswith (str_lower ''File:X.JPG'') ext) IMAGE_EXTENSIONS \<and>
   matches_file_in_wikitext ''[[file:x.jpg|thumb]]'' ''File:X.JPG'' \<and>
   has_image_in_wikitext ''[[file:x.jpg|thumb]]''"
proof -
  have ext: "list_ex (\<lambda>ext. endswith (str_lower ''File:X.JPG'') ext) IMAGE_EXTENSIONS"
    by (simp add: matcher_defs suffix_def)
  have ref: "matches_file_in_wikitext ''[[file:x.jpg|thumb]]'' ''File:X.JPG''"
    by (simp add: matcher_defs)
  from reference_implies_image_markup [OF ext ref] ext ref show ?thesis by simp
qed

text \<open>The file-reference test reads both operands through \<open>str_lower\<close> only.\<close>

lemma matches_file_in_wikitext_case:
  "str_lower content = str_lower content' \<Longrightarrow> str_lower file_name = str_lower file_name' \<Longrightarrow>
   matches_file_in_wikitext content file_name = matches_file_in_wikitext content' file_name'"
  by (simp add: matches_file_in_wikitext_def)

text \<open>
  Claim C5: the file-reference test is unchanged when underscores and spaces are
  interchanged in the content or in the file name, and under changes of letter case.
  The code tries three spellings of the file name only (as given, all spaces, all
  underscores) and leaves the content as it is, so a content that mixes the two
  separators is not matched: the page below uses the file, and the test says no.
\<close>

theorem mixed_separators_not_matched:
  "matches_file_in_wikitext ''[[File:John_Smith 2020.jpg]]'' ''File:John Smith 2020.jpg'' = False \<and>
   matches_file_in_wikitext ''[[File:John Smith 2020.jpg]]'' ''File:John Smith 2020.jpg'' = True \<and>
   matches_file_in_wikitext ''[[File:John_Smith_2020.jpg]]'' ''File:John Smith 2020.jpg'' = True"
  by (simp add: matcher_defs)





section \<open>Wikitext introduction finder\<close>

lemma scan_revisions_absent:
  "\<forall>r \<in> set newer. \<not> matches_file_in_wikitext (snd (snd r)) file_name \<Longrightarrow>
   scan_revisions file_name False i t (newer @ revs) = scan_revisions file_name False i t revs"
  by (induction newer) auto

lemma scan_revisions_present:
  "\<forall>r \<in> set present. matches_file_in_wikitext (snd (snd r)) file_name \<Longrightarrow>
   \<not> matches_file_in_wikitext content file_name \<Longrightarrow>
   scan_revisions file_name True i t (present @ (rev_id, ts, content) # older) =
     Some (wikitext_result
       (if present = [] then i else PInt (fst (last present)))
       (if present = [] then t else PStr (fst (snd (last present))))
       (\<not> has_image_in_wikitext content))"
  by (induction present arbitrary: i t) auto

lemma scan_revisions_never:
  "\<forall>r \<in> set revs. \<not> matches_file_in_wikitext (snd (snd r)) file_name \<Longrightarrow>
   scan_revisions file_name False i t revs = None"
  by (induction revs) auto

lemma scan_revisions_shape:
  "scan_revisions file_name found i t revs = Some r \<Longrightarrow>
   \<exists>i' t' first_image. r = wikitext_result i' t' first_image"
  by (induction file_name found i t revs rule: scan_revisions.induct)
     (auto split: if_splits)

lemma wikitext_introduction_shape:
  "find_earliest_wikitext_introduction e wiki page_title file_name = Some r \<Longrightarrow>
   \<exists>i t first_image. r = wikitext_result i t first_image"
  unfolding find_earliest_wikitext_introduction_def by (rule scan_revisions_shape)

text \<open>
  Claim C1: the revisions are \<open>newer @ present @ terminating # older\<close>, newest first:
  none of \<open>newer\<close> references the file, \<open>present\<close> is the non-empty run of revisions
  that reference it, and the next older revision does not. Then the finder returns the
  id and the timestamp of the last revision of \<open>present\<close>, and the first-image flag is
  true iff the terminating revision has no image markup.
\<close>

theorem wikitext_introduction_point:
  assumes revs: "get_page_revisions_wikitext_descending e wiki page_title =
                   newer @ present @ (rev_id, ts, content) # older"
    and newer: "\<forall>r \<in> set newer. \<not> matches_file_in_wikitext (snd (snd r)) file_name"
    and nonempty: "present \<noteq> []"
    and present: "\<forall>r \<in> set present. matches_file_in_wikitext (snd (snd r)) file_name"
    and absent: "\<not> matches_file_in_wikitext content file_name"
  shows "find_earliest_wikitext_introduction e wiki page_title file_name =
           Some [(''introduced_revision_id'', PInt (fst (last present))),
                 (''introduced_timestamp'', PStr (fst (snd (last present)))),
                 (''first_image'', PBool (\<not> has_image_in_wikitext content)),
                 (''from_wikidata'', PBool False)]"
proof -
  from nonempty obtain p ps where p: "present = p # ps" by (cases present) auto
  obtain pi pt pc where pp: "p = (pi, pt, pc)" by (cases p) auto
  have ps: "\<forall>r \<in> set ps. matches_file_in_wikitext (snd (snd r)) file_name"
    and pc: "matches_file_in_wikitext pc file_name"
    using present p pp by auto
  have "find_earliest_wikitext_introduction e wiki page_title file_name =
          scan_revisions file_name False PNone PNone (present @ (rev_id, ts, content) # older)"
    unfolding find_earliest_wikitext_introduction_def revs
    by (rule scan_revisions_absent [OF newer])
  also have "\<dots> = scan_revisions file_name True (PInt pi) (PStr pt)
                     (ps @ (rev_id, ts, content) # older)"
    using pc by (simp add: p pp)
  also have "\<dots> = Some (wikitext_result (PInt (fst (last present)))
                     (PStr (fst (snd (last present)))) (\<not> has_image_in_wikitext content))"
    unfolding scan_revisions_present [OF ps absent] by (simp add: p pp)
  finally show ?thesis by (simp add: wikitext_result_def)
qed

theorem wikitext_introduction_point_witness:
  "find_earliest_wikitext_introduction example_env ''en.wikipedia.org'' ''Direct'' ''File:X.jpg'' =
     Some [(''introduced_revision_id'', PInt 2),
           (''introduced_timestamp'', PStr ''2024-01-02T00:00:00Z''),
           (''first_image'', PBool False),
           (''from_wikidata'', PBool False)]"
proof -
  have revs: "get_page_revisions_wikitext_descending example_env ''en.wikipedia.org'' ''Direct'' =
      [(4, ''2024-01-04T00:00:00Z'', ''plain text'')]
      @ [(3, ''2024-01-03T00:00:00Z'', ''[[File:X.jpg|thumb]] text''),
         (2, ''2024-01-02T00:00:00Z'', ''[[file:x.JPG]]'')]
      @ (1, ''2024-01-01T00:00:00Z'', ''[[File:Old.png]]'') # []"
    by (simp add: example_env_def)
  have newer: "\<forall>r \<in> set [(4::int, ''2024-01-04T00:00:00Z'', ''plain text'')].
      \<not> matches_file_in_wikitext (snd (snd r)) ''File:X.jpg''"
    by (simp add: matcher_defs)
  have nonempty: "[(3::int, ''2024-01-03T00:00:00Z'', ''[[File:X.jpg|thumb]] text''),
         (2, ''2024-01-02T00:00:00Z'', ''[[file:x.JPG]]'')] \<noteq> []"
    by simp
  have present: "\<forall>r \<in> set [(3::int, ''2024-01-03T00:00:00Z'', ''[[File:X.jpg|thumb]] text''),
         (2, ''2024-01-02T00:00:00Z'', ''[[file:x.JPG]]'')].
      matches_file_in_wikitext (snd (snd r)) ''File:X.jpg''"
    by (simp add: matcher_defs)
  have absent: "\<not> matches_file_in_wikitext ''[[File:Old.png]]'' ''File:X.jpg''"
    by (simp add: matcher_defs)
  have image: "has_image_in_wikitext ''[[File:Old.png]]''"
    by (simp add: matcher_defs)
  from wikitext_introduction_point [OF revs newer nonempty present absent] image
  show ?thesis by simp
qed

section \<open>Structured-data fallback finder\<close>

lemma image_fields_Nil [simp]: "image_fields [] = []"
  by (simp add: image_fields_def List.map_filter_simps)

text \<open>The record that the \<open>try\<close> block builds, when it raises nothing.\<close>

lemma image_history_info_Inr:
  assumes "image_history_info item h = Inr info"
  shows "\<exists>hs. h = PList hs \<and>
     info =
       [(''introduced_revision_id'',
           (case hs of [] \<Rightarrow> PInt 0
            | PDict d # _ \<Rightarrow> dict_get d ''revision_id'' (PInt 0)
            | _ \<Rightarrow> PInt 0)),
        (''introduced_timestamp'',
           (case hs of [] \<Rightarrow> PStr ''Unknown''
            | PDict d # _ \<Rightarrow> the (map_of d ''timestamp'')
            | _ \<Rightarrow> PNone)),
        (''timestamp_is_formatted'', PBool True),
        (''first_image'', PBool (image_fields (tl hs) = [])),
        (''first_p18'', PBool (length hs \<le> 1)),
        (''from_wikidata'', PBool True),
        (''wikidata_item'', PStr item),
        (''previous_p18_images'', PList (image_fields (tl hs)))] \<and>
     (hs \<noteq> [] \<longrightarrow> (\<exists>d t. hd hs = PDict d \<and> map_of d ''timestamp'' = Some t))"
proof (cases h)
  case (PList hs)
  show ?thesis
  proof (cases hs)
    case Nil
    with PList assms show ?thesis
      by (auto simp: image_history_info_def)
  next
    case (Cons x xs)
    with PList assms obtain d where d: "x = PDict d"
      by (cases x) (auto simp: image_history_info_def is_dict_def)
    from PList Cons d assms show ?thesis
      by (cases "map_of d ''timestamp''")
         (auto simp: image_history_info_def is_dict_def Let_def split: if_splits)
  qed
qed (use assms in \<open>auto simp: image_history_info_def\<close>)

lemma find_wikidata_introduction_from_wikidata:
  "find_wikidata_introduction e wiki page_title file_name = (out, Inr (Some info)) \<Longrightarrow>
   map_of info ''from_wikidata'' = Some (PBool True)"
  by (auto simp: find_wikidata_introduction_def image_history_info_def Let_def
      split: option.splits if_splits sum.splits pyval.splits)

lemmas finder_defs =
  find_wikidata_introduction_def image_history_info_def find_earliest_introduction_def
  find_earliest_wikitext_introduction_def introduction_lookup_def wikitext_result_def
  image_fields_def is_dict_def is_str_def dict_get_def subscript_def
  example_env_def example_args_def Let_def

text \<open>
  Claim C2: when the fallback finder returns a record, the history \<open>hs\<close> of the item is
  a list and the record has: \<open>first_p18\<close> true iff \<open>hs\<close> has at most one entry;
  \<open>previous_p18_images\<close> the image fields of the entries after the first, in order;
  \<open>first_image\<close> true iff there is no such image; the revision id and the timestamp of
  the first entry (the id 0 when the entry has none), or 0 and \<open>Unknown\<close> for an empty
  history; and \<open>from_wikidata\<close> true.
\<close>

theorem structured_data_record:
  assumes "find_wikidata_introduction e wiki page_title file_name = (out, Inr (Some info))"
  shows "\<exists>item hs.
     get_wikidata_item_for_page e wiki page_title = Some item \<and>
     get_image_history_for_item e item = PList hs \<and>
     map_of info ''first_p18'' = Some (PBool (length hs \<le> 1)) \<and>
     map_of info ''previous_p18_images'' = Some (PList (image_fields (tl hs))) \<and>
     map_of info ''first_image'' = Some (PBool (image_fields (tl hs) = [])) \<and>
     (case hs of
        [] \<Rightarrow> map_of info ''introduced_revision_id'' = Some (PInt 0) \<and>
              map_of info ''introduced_timestamp'' = Some (PStr ''Unknown'')
      | current # older \<Rightarrow>
          (\<exists>d. current = PDict d \<and>
             map_of info ''introduced_revision_id'' = Some (dict_get d ''revision_id'' (PInt 0)) \<and>
             map_of info ''introduced_timestamp'' = map_of d ''timestamp'')) \<and>
     map_of info ''from_wikidata'' = Some (PBool True)"
proof -
  from assms obtain item where item: "get_wikidata_item_for_page e wiki page_title = Some item"
    and info: "image_history_info item (get_image_history_for_item e item) = Inr info"
    by (auto simp: find_wikidata_introduction_def split: option.splits if_splits sum.splits)
  from image_history_info_Inr [OF info] obtain hs where
    hs: "get_image_history_for_item e item = PList hs"
    and rec: "info =
       [(''introduced_revision_id'',
           (case hs of [] \<Rightarrow> PInt 0
            | PDict d # _ \<Rightarrow> dict_get d ''revision_id'' (PInt 0)
            | _ \<Rightarrow> PInt 0)),
        (''introduced_timestamp'',
           (case hs of [] \<Rightarrow> PStr ''Unknown''
            | PDict d # _ \<Rightarrow> the (map_of d ''timestamp'')
            | _ \<Rightarrow> PNone)),
        (''timestamp_is_formatted'', PBool True),
        (''first_image'', PBool (image_fields (tl hs) = [])),
        (''first_p18'', PBool (length hs \<le> 1)),
        (''from_wikidata'', PBool True),
        (''wikidata_item'', PStr item),
        (''previous_p18_images'', PList (image_fields (tl hs)))]"
    and first: "hs \<noteq> [] \<longrightarrow> (\<exists>d t. hd hs = PDict d \<and> map_of d ''timestamp'' = Some t)"
    by blast
  have "case hs of
        [] \<Rightarrow> map_of info ''introduced_revision_id'' = Some (PInt 0) \<and>
              map_of info ''introduced_timestamp'' = Some (PStr ''Unknown'')
      | current # older \<Rightarrow>
          (\<exists>d. current = PDict d \<and>
             map_of info ''introduced_revision_id'' = Some (dict_get d ''revision_id'' (PInt 0)) \<and>
             map_of info ''introduced_timestamp'' = map_of d ''timestamp'')"
    using first by (cases hs) (auto simp: rec)
  moreover have "map_of info ''first_p18'' = Some (PBool (length hs \<le> 1))"
    "map_of info ''previous_p18_images'' = Some (PList (image_fields (tl hs)))"
    "map_of info ''first_image'' = Some (PBool (image_fields (tl hs) = []))"
    "map_of info ''from_wikidata'' = Some (PBool True)"
    by (simp_all add: rec)
  ultimately show ?thesis using item hs by blast
qed

theorem structured_data_record_witness:
  "\<exists>info. find_wikidata_introduction example_env ''en.wikipedia.org'' ''Infobox'' ''File:X.jpg''
            = ([], Inr (Some info)) \<and>
          map_of info ''first_p18'' = Some (PBool False) \<and>
          map_of info ''previous_p18_images'' = Some (PList [PStr ''V1.jpg'', PStr ''V2.jpg'']) \<and>
          map_of info ''first_image'' = Some (PBool False) \<and>
          map_of info ''from_wikidata'' = Some (PBool True)"
proof -
  obtain info where found:
    "find_wikidata_introduction example_env ''en.wikipedia.org'' ''Infobox'' ''File:X.jpg''
       = ([], Inr (Some info))"
    by (simp add: finder_defs matcher_defs)
  from structured_data_record [OF found] obtain item hs where
    item: "get_wikidata_item_for_page example_env ''en.wikipedia.org'' ''Infobox'' = Some item"
    and hs: "get_image_history_for_item example_env item = PList hs"
    and rec: "map_of info ''first_p18'' = Some (PBool (length hs \<le> 1))"
      "map_of info ''previous_p18_images'' = Some (PList (image_fields (tl hs)))"
      "map_of info ''first_image'' = Some (PBool (image_fields (tl hs) = []))"
      "map_of info ''from_wikidata'' = Some (PBool True)"
    by blast
  from item have "item = ''Q2''" by (simp add: example_env_def)
  with hs have "hs =
     [PDict [(''timestamp'', PStr ''2024-03-03 00:00:00 UTC''),
             (''image'', PStr ''X.jpg''), (''revision_id'', PInt 30)],
      PDict [(''timestamp'', PStr ''2024-02-02 00:00:00 UTC''),
             (''image'', PStr ''V1.jpg''), (''revision_id'', PInt 20)],
      PDict [(''timestamp'', PStr ''2024-01-01 00:00:00 UTC''),
             (''image'', PStr ''V2.jpg''), (''revision_id'', PInt 10)]]"
    by (simp add: example_env_def)
  with rec have "map_of info ''first_p18'' = Some (PBool False)"
    "map_of info ''previous_p18_images'' = Some (PList [PStr ''V1.jpg'', PStr ''V2.jpg''])"
    "map_of info ''first_image'' = Some (PBool False)"
    by (simp_all add: image_fields_def List.map_filter_simps)
  with found rec(4) show ?thesis by blast
qed

section \<open>Introduction resolver\<close>

text \<open>
  Claim C7: the lookup runs the wikitext finder first. When that finder yields a record,
  the lookup returns this record, whatever the structured-data services would answer;
  when it yields none and the fallback is disabled, the lookup returns none, in
  particular when no revision references the file.
\<close>

theorem wikitext_takes_precedence:
  "(find_earliest_wikitext_introduction e wiki page_title file_name = Some r \<longrightarrow>
      (\<forall>item image history.
         introduction_lookup
           (e\<lparr>get_wikidata_item_for_page := item,
              get_current_image_for_item := image,
              get_image_history_for_item := history\<rparr>) a wiki page_title file_name
         = ([], Inr (Some r)))) \<and>
   (find_earliest_wikitext_introduction e wiki page_title file_name = None \<and> skip_wikidata a \<longrightarrow>
      introduction_lookup e a wiki page_title file_name = ([], Inr None)) \<and>
   ((\<forall>rev \<in> set (get_page_revisions_wikitext_descending e wiki page_title).
       \<not> matches_file_in_wikitext (snd (snd rev)) file_name) \<and> skip_wikidata a \<longrightarrow>
      introduction_lookup e a wiki page_title file_name = ([], Inr None))"
proof (intro conjI impI allI)
  fix item image history
  assume found: "find_earliest_wikitext_introduction e wiki page_title file_name = Some r"
  let ?e = "e\<lparr>get_wikidata_item_for_page := item,
              get_current_image_for_item := image,
              get_image_history_for_item := history\<rparr>"
  have same: "find_earliest_wikitext_introduction ?e wiki page_title file_name = Some r"
    using found by (simp add: find_earliest_wikitext_introduction_def)
  from wikitext_introduction_shape [OF found] have "r \<noteq> []"
    by (auto simp: wikitext_result_def)
  with same show "introduction_lookup ?e a wiki page_title file_name = ([], Inr (Some r))"
    by (simp add: introduction_lookup_def find_earliest_introduction_def)
next
  assume "find_earliest_wikitext_introduction e wiki page_title file_name = None \<and> skip_wikidata a"
  then show "introduction_lookup e a wiki page_title file_name = ([], Inr None)"
    by (simp add: introduction_lookup_def)
next
  assume "(\<forall>rev \<in> set (get_page_revisions_wikitext_descending e wiki page_title).
       \<not> matches_file_in_wikitext (snd (snd rev)) file_name) \<and> skip_wikidata a"
  then show "introduction_lookup e a wiki page_title file_name = ([], Inr None)"
    by (simp add: introduction_lookup_def find_earliest_wikitext_introduction_def
        scan_revisions_never)
qed

theorem wikitext_takes_precedence_witness:
  "introduction_lookup
     (example_env\<lparr>get_wikidata_item_for_page := (\<lambda>wiki page_title. Some ''Q1''),
                  get_current_image_for_item := (\<lambda>item_id. Some ''X.jpg''),
                  get_image_history_for_item := (\<lambda>item_id. PNone)\<rparr>)
     example_args ''en.wikipedia.org'' ''Direct'' ''File:X.jpg''
     = ([], Inr (Some [(''introduced_revision_id'', PInt 2),
                       (''introduced_timestamp'', PStr ''2024-01-02T00:00:00Z''),
                       (''first_image'', PBool False),
                       (''from_wikidata'', PBool False)])) \<and>
   introduction_lookup example_env (example_args\<lparr>skip_wikidata := True\<rparr>)
     ''en.wikipedia.org'' ''Broken'' ''File:X.jpg'' = ([], Inr None)"
proof -
  have found:
    "find_earliest_wikitext_introduction example_env ''en.wikipedia.org'' ''Direct'' ''File:X.jpg'' =
       Some [(''introduced_revision_id'', PInt 2),
             (''introduced_timestamp'', PStr ''2024-01-02T00:00:00Z''),
             (''first_image'', PBool False),
             (''from_wikidata'', PBool False)]"
    by (simp add: finder_defs matcher_defs)
  have none:
    "find_earliest_wikitext_introduction example_env ''en.wikipedia.org'' ''Broken'' ''File:X.jpg''
       = None \<and> skip_wikidata (example_args\<lparr>skip_wikidata := True\<rparr>)"
    by (simp add: finder_defs)
  from found
    wikitext_takes_precedence [of example_env "''en.wikipedia.org''" "''Direct''" "''File:X.jpg''"
      "[(''introduced_revision_id'', PInt 2),
        (''introduced_timestamp'', PStr ''2024-01-02T00:00:00Z''),
        (''first_image'', PBool False),
        (''from_wikidata'', PBool False)]" example_args]
  have first: "introduction_lookup
     (example_env\<lparr>get_wikidata_item_for_page := (\<lambda>wiki page_title. Some ''Q1''),
                  get_current_image_for_item := (\<lambda>item_id. Some ''X.jpg''),
                  get_image_history_for_item := (\<lambda>item_id. PNone)\<rparr>)
     example_args ''en.wikipedia.org'' ''Direct'' ''File:X.jpg''
     = ([], Inr (Some [(''introduced_revision_id'', PInt 2),
                       (''introduced_timestamp'', PStr ''2024-01-02T00:00:00Z''),
                       (''first_image'', PBool False),
                       (''from_wikidata'', PBool False)]))"
    by blast
  from none
    wikitext_takes_precedence [of example_env "''en.wikipedia.org''" "''Broken''" "''File:X.jpg''"
      _ "example_args\<lparr>skip_wikidata := True\<rparr>"]
  have "introduction_lookup example_env (example_args\<lparr>skip_wikidata := True\<rparr>)
     ''en.wikipedia.org'' ''Broken'' ''File:X.jpg'' = ([], Inr None)"
    by blast
  with first show ?thesis by blast
qed

section \<open>Result entries\<close>

text \<open>
  Claim C6: in every result entry made from a record of the lookup, \<open>from_wikidata\<close> is a
  boolean, and when it is false the entry has \<open>wikidata_item\<close> and \<open>first_p18\<close> equal to
  \<open>None\<close> and an empty list of previous images.
\<close>

theorem result_entry_invariant:
  assumes "introduction_lookup e a wiki page_title file_title = (out, Inr (Some info))"
    and "create_result_entry e info file_title wiki lang_code page_title = Inr entry"
  shows "\<exists>via. map_of entry ''from_wikidata'' = Some (PBool via) \<and>
           (\<not> via \<longrightarrow>
              map_of entry ''wikidata_item'' = Some PNone \<and>
              map_of entry ''first_p18'' = Some PNone \<and>
              map_of entry ''previous_p18_images'' = Some (PList []))"
proof -
  consider (wikitext) "find_earliest_wikitext_introduction e wiki page_title file_title = Some info"
    | (wikidata) out2 where
        "find_wikidata_introduction e wiki page_title file_title = (out2, Inr (Some info))"
    using assms(1)
    by (auto simp: introduction_lookup_def find_earliest_introduction_def
        split: if_splits option.splits)
  then show ?thesis
  proof cases
    case wikitext
    from wikitext_introduction_shape [OF this] obtain i t first_image where
      "info = wikitext_result i t first_image" by blast
    with assms(2) show ?thesis
      by (auto simp: create_result_entry_def subscript_def dict_get_def wikitext_result_def
          split: sum.splits)
  next
    case wikidata
    from find_wikidata_introduction_from_wikidata [OF this] assms(2) show ?thesis
      by (auto simp: create_result_entry_def dict_get_def split: sum.splits)
  qed
qed

theorem result_entry_invariant_witness:
  "\<exists>info entry.
     introduction_lookup example_env example_args ''en.wikipedia.org'' ''Direct'' ''File:X.jpg''
       = ([], Inr (Some info)) \<and>
     create_result_entry example_env info ''File:X.jpg'' ''en.wikipedia.org'' ''en'' ''Direct''
       = Inr entry \<and>
     map_of entry ''from_wikidata'' = Some (PBool False) \<and>
     map_of entry ''wikidata_item'' = Some PNone \<and>
     map_of entry ''first_p18'' = Some PNone \<and>
     map_of entry ''previous_p18_images'' = Some (PList [])"
proof -
  obtain info where lookup:
    "introduction_lookup example_env example_args ''en.wikipedia.org'' ''Direct'' ''File:X.jpg''
       = ([], Inr (Some info))"
    and info: "info = [(''introduced_revision_id'', PInt 2),
                       (''introduced_timestamp'', PStr ''2024-01-02T00:00:00Z''),
                       (''first_image'', PBool False),
                       (''from_wikidata'', PBool False)]"
    by (simp add: finder_defs matcher_defs)
  obtain entry where entry:
    "create_result_entry example_env info ''File:X.jpg'' ''en.wikipedia.org'' ''en'' ''Direct''
       = Inr entry"
    and via: "map_of entry ''from_wikidata'' = Some (PBool False)"
    by (simp add: info create_result_entry_def format_timestamp_def finder_defs
        str_replace.simps)
  from result_entry_invariant [OF lookup entry] via
  have "map_of entry ''wikidata_item'' = Some PNone \<and>
        map_of entry ''first_p18'' = Some PNone \<and>
        map_of entry ''previous_p18_images'' = Some (PList [])"
    by auto
  with lookup entry via show ?thesis by blast
qed

section \<open>Statistics aggregator\<close>

lemma incr_commute: "incr (incr d k) k' = incr (incr d k') k"
  by (rule ext) (auto simp: incr_def counter_def)

lemma counter_incr: "counter (incr d k) k' = (if k' = k then counter d k + 1 else counter d k')"
  by (simp add: incr_def counter_def)

lemma update_file_usage_fields:
  "total_usages_by_file (update_file_usage s f w l a b c) = incr (total_usages_by_file s) f"
  "total_usages_by_wiki (update_file_usage s f w l a b c) = incr (total_usages_by_wiki s) w"
  "total_usages_by_lang (update_file_usage s f w l a b c) = incr (total_usages_by_lang s) l"
  "first_image_by_file (update_file_usage s f w l a b c) =
     (if a then incr (first_image_by_file s) f else first_image_by_file s)"
  "first_image_by_wiki (update_file_usage s f w l a b c) =
     (if a then incr (first_image_by_wiki s) w else first_image_by_wiki s)"
  "first_image_by_lang (update_file_usage s f w l a b c) =
     (if a then incr (first_image_by_lang s) l else first_image_by_lang s)"
  "wikidata_sourced_by_wiki (update_file_usage s f w l a b c) =
     (if b then incr (wikidata_sourced_by_wiki s) w else wikidata_sourced_by_wiki s)"
  "wikidata_sourced_count (update_file_usage s f w l a b c) =
     wikidata_sourced_count s + (if b then 1 else 0)"
  "first_p18_count (update_file_usage s f w l a b c) =
     first_p18_count s + (if b \<and> c then 1 else 0)"
  "replaced_p18_count (update_file_usage s f w l a b c) =
     replaced_p18_count s + (if b \<and> \<not> c then 1 else 0)"
  "files_used_on_wikipedias (update_file_usage s f w l a b c) = files_used_on_wikipedias s"
  "wiki_pages_seen (update_file_usage s f w l a b c) = wiki_pages_seen s"
  "usage_by_wiki (update_file_usage s f w l a b c) = usage_by_wiki s"
  "StatisticsTracker.more (update_file_usage s f w l a b c) = StatisticsTracker.more s"
  by (simp_all add: update_file_usage_def Let_def)

lemma update_file_usage_commute:
  "update_file_usage (update_file_usage s f w l a b c) f' w' l' a' b' c' =
   update_file_usage (update_file_usage s f' w' l' a' b' c') f w l a b c"
  by (rule StatisticsTracker.equality)
     (simp_all add: update_file_usage_fields incr_commute)

lemma apply_event_commute: "apply_event x \<circ> apply_event y = apply_event y \<circ> apply_event x"
  by (rule ext) (simp add: apply_event_def update_file_usage_commute split: prod.splits)

lemma update_statistics_apply_event:
  "map_of info ''first_image'' = Some v \<Longrightarrow>
   update_statistics info stats f w l = Inr (apply_event (info, f, w, l) stats)"
  by (simp add: apply_event_def dict_get_def update_statistics_def update_file_usage_def Let_def)

text \<open>A run whose records all have \<open>first_image\<close> is a fold of total steps.\<close>

lemma record_all_fold:
  "\<forall>ev \<in> set events. map_of (fst ev) ''first_image'' \<noteq> None \<Longrightarrow>
   record_all events stats = Inr (fold apply_event events stats)"
proof (induction events arbitrary: stats)
  case Nil
  show ?case by simp
next
  case (Cons ev events)
  obtain info f w l where ev: "ev = (info, f, w, l)" by (cases ev) auto
  from Cons.prems obtain v where v: "map_of info ''first_image'' = Some v"
    by (auto simp: ev)
  from update_statistics_apply_event [OF v] Cons show ?case
    by (simp add: ev)
qed

text \<open>A run with a record that lacks \<open>first_image\<close> raises \<open>KeyError\<close>, in any order.\<close>

lemma record_all_KeyError:
  "\<exists>ev \<in> set events. map_of (fst ev) ''first_image'' = None \<Longrightarrow>
   record_all events stats = Inl (KeyError ''first_image'')"
proof (induction events arbitrary: stats)
  case Nil
  then show ?case by simp
next
  case (Cons ev events)
  obtain info f w l where ev: "ev = (info, f, w, l)" by (cases ev) auto
  show ?case
  proof (cases "map_of info ''first_image''")
    case None
    then show ?thesis by (simp add: ev update_statistics_def Let_def)
  next
    case (Some v)
    with Cons.prems have "\<exists>ev \<in> set events. map_of (fst ev) ''first_image'' = None"
      by (auto simp: ev)
    moreover from update_statistics_apply_event [OF Some]
    have "\<exists>s1. update_statistics info stats f w l = Inr s1"
      by blast
    ultimately show ?thesis
      using Cons.IH by (auto simp: ev)
  qed
qed

lemma record_all_permute:
  assumes "mset events = mset events'"
  shows "record_all events stats = record_all events' stats"
proof (cases "\<forall>ev \<in> set events. map_of (fst ev) ''first_image'' \<noteq> None")
  case True
  moreover from assms have s: "set events = set events'" by (rule mset_eq_setD)
  ultimately have "\<forall>ev \<in> set events'. map_of (fst ev) ''first_image'' \<noteq> None" by simp
  with True show ?thesis
    using fold_multiset_equiv [OF apply_event_commute assms]
    by (simp add: record_all_fold)
next
  case False
  moreover from assms have s: "set events = set events'" by (rule mset_eq_setD)
  ultimately show ?thesis
    using record_all_KeyError [of events stats] record_all_KeyError [of events' stats]
    by auto
qed

lemma counters_le_refl: "counters_le s s"
  by (simp add: counters_le_def)

lemma counters_le_trans: "counters_le s t \<Longrightarrow> counters_le t u \<Longrightarrow> counters_le s u"
  unfolding counters_le_def by (meson order_trans)

lemma update_statistics_le:
  "update_statistics info s f w l = Inr s' \<Longrightarrow> counters_le s s'"
  by (auto simp: update_statistics_def Let_def counters_le_def counter_incr
      split: option.splits if_splits)

lemma record_all_le: "record_all events s = Inr s' \<Longrightarrow> counters_le s s'"
proof (induction events arbitrary: s)
  case Nil
  then show ?case by (simp add: counters_le_refl)
next
  case (Cons ev events)
  obtain info f w l where ev: "ev = (info, f, w, l)" by (cases ev) auto
  from Cons.prems obtain s1 where s1: "update_statistics info s f w l = Inr s1"
    and rest: "record_all events s1 = Inr s'"
    by (auto simp: ev split: sum.splits)
  from update_statistics_le [OF s1] Cons.IH [OF rest] show ?case
    by (rule counters_le_trans)
qed

lemma counters_nonneg_initial: "counters_le initialize_statistics s \<Longrightarrow> counters_nonneg s"
  by (simp add: counters_le_def counters_nonneg_def initialize_statistics_def counter_def)

text \<open>
  Claim C10: \<open>update_statistics\<close> applied to a record is \<open>update_file_usage\<close> applied to
  the three flags read from that record; the two write the same counters.
\<close>

theorem update_statistics_is_update_file_usage:
  assumes "map_of info ''first_image'' = Some first_image"
  shows "update_statistics info stats file_title wiki lang_code =
           Inr (update_file_usage stats file_title wiki lang_code
                  (truthy first_image)
                  (truthy (dict_get info ''from_wikidata'' (PBool False)))
                  (truthy (dict_get info ''first_p18'' (PBool False))))"
  using assms by (simp add: update_statistics_def update_file_usage_def Let_def)

theorem update_statistics_is_update_file_usage_witness:
  "update_statistics
     [(''first_image'', PBool False), (''first_p18'', PBool True), (''from_wikidata'', PBool True)]
     initialize_statistics ''File:X.jpg'' ''en.wikipedia.org'' ''en''
   = Inr (update_file_usage initialize_statistics ''File:X.jpg'' ''en.wikipedia.org'' ''en''
            False True True)"
  using update_statistics_is_update_file_usage
    [of "[(''first_image'', PBool False), (''first_p18'', PBool True),
          (''from_wikidata'', PBool True)]"
        "PBool False" initialize_statistics "''File:X.jpg''" "''en.wikipedia.org''" "''en''"]
  by (simp add: dict_get_def)

text \<open>
  Claim C8: two runs over the same multiset of usage events, from a fresh tracker, end
  in the same result, and the run ends in a tracker when every record has the
  \<open>first_image\<close> flag. Wherever the run is cut, the counters reached so far are not
  negative, and no counter is smaller at the end than at the cut.
\<close>

theorem record_order_irrelevant:
  assumes "mset events = mset events'"
  shows "record_all events initialize_statistics = record_all events' initialize_statistics \<and>
         ((\<forall>ev \<in> set events. map_of (fst ev) ''first_image'' \<noteq> None) \<longrightarrow>
            (\<exists>final. record_all events initialize_statistics = Inr final)) \<and>
         (\<forall>before after mid.
            events = before @ after \<and> record_all before initialize_statistics = Inr mid \<longrightarrow>
              counters_nonneg mid \<and>
              (\<forall>final. record_all after mid = Inr final \<longrightarrow> counters_le mid final))"
proof (intro conjI impI allI)
  show "record_all events initialize_statistics = record_all events' initialize_statistics"
    by (rule record_all_permute [OF assms])
next
  assume "\<forall>ev \<in> set events. map_of (fst ev) ''first_image'' \<noteq> None"
  then show "\<exists>final. record_all events initialize_statistics = Inr final"
    by (simp add: record_all_fold)
next
  fix before after mid
  assume "events = before @ after \<and> record_all before initialize_statistics = Inr mid"
  then show "counters_nonneg mid"
    using counters_nonneg_initial record_all_le by blast
next
  fix before after mid final
  assume "record_all after mid = Inr final"
  then show "counters_le mid final" by (rule record_all_le)
qed

theorem record_order_irrelevant_witness:
  "record_all
     [([(''first_image'', PBool True), (''from_wikidata'', PBool False)],
        ''File:X.jpg'', ''en.wikipedia.org'', ''en''),
      ([(''first_image'', PBool False), (''first_p18'', PBool False),
        (''from_wikidata'', PBool True)],
        ''File:Y.jpg'', ''de.wikipedia.org'', ''de'')]
     initialize_statistics
   = record_all
     [([(''first_image'', PBool False), (''first_p18'', PBool False),
        (''from_wikidata'', PBool True)],
        ''File:Y.jpg'', ''de.wikipedia.org'', ''de''),
      ([(''first_image'', PBool True), (''from_wikidata'', PBool False)],
        ''File:X.jpg'', ''en.wikipedia.org'', ''en'')]
     initialize_statistics"
proof -
  have "mset
     [([(''first_image'', PBool True), (''from_wikidata'', PBool False)],
        ''File:X.jpg'', ''en.wikipedia.org'', ''en''),
      ([(''first_image'', PBool False), (''first_p18'', PBool False),
        (''from_wikidata'', PBool True)],
        ''File:Y.jpg'', ''de.wikipedia.org'', ''de'')]
   = mset
     [([(''first_image'', PBool False), (''first_p18'', PBool False),
        (''from_wikidata'', PBool True)],
        ''File:Y.jpg'', ''de.wikipedia.org'', ''de''),
      ([(''first_image'', PBool True), (''from_wikidata'', PBool False)],
        ''File:X.jpg'', ''en.wikipedia.org'', ''en'')]"
    by (simp add: add_mset_commute)
  from record_order_irrelevant [OF this] show ?thesis by blast
qed

section \<open>The batch\<close>










lemmas batch_defs =
  main_def process_file_def process_wiki_pages_def process_page_def get_language_code_def
  initialize_statistics_def update_statistics_def create_result_entry_def format_timestamp_def
  incr_def counter_def




end
